theory Spec2Isabelle
  imports Complex_Main "HOL-Library.AList"
begin

section \<open>Python strings\<close>

text \<open>
  A Python \<open>str\<close> is modelled as a \<open>string\<close>, one \<open>char\<close> per character; the model
  covers the characters with code points below 256. \<open>py_isspace\<close> is \<open>str.isspace\<close> on
  that range, which is the set of characters \<open>str.strip()\<close> removes.
\<close>

definition py_isspace :: "char \<Rightarrow> bool" where
  "py_isspace c = (of_char c \<in> {9, 10, 11, 12, 13, 28, 29, 30, 31, 32, 133, 160 :: nat})"

definition py_lstrip :: "string \<Rightarrow> string" where
  "py_lstrip s = dropWhile py_isspace s"

definition py_rstrip :: "string \<Rightarrow> string" where
  "py_rstrip s = rev (dropWhile py_isspace (rev s))"

definition py_strip :: "string \<Rightarrow> string" where
  "py_strip s = py_rstrip (py_lstrip s)"

definition py_startswith :: "string \<Rightarrow> string \<Rightarrow> bool" where
  "py_startswith s p = (take (length p) s = p)"

text \<open>\<open>s.find(c)\<close> and \<open>s.rfind(c)\<close> for a one-character \<open>c\<close>: the index, or \<open>-1\<close>.\<close>

definition py_find :: "string \<Rightarrow> char \<Rightarrow> int" where
  "py_find s c =
     (if c \<in> set s then int (length (takeWhile (\<lambda>x. x \<noteq> c) s)) else - 1)"

definition py_rfind :: "string \<Rightarrow> char \<Rightarrow> int" where
  "py_rfind s c =
     (if c \<in> set s
      then int (length s) - 1 - int (length (takeWhile (\<lambda>x. x \<noteq> c) (rev s)))
      else - 1)"

text \<open>\<open>s[a:b]\<close>: a negative index counts from the end, and both are clamped to the string.\<close>

definition py_clamp :: "string \<Rightarrow> int \<Rightarrow> nat" where
  "py_clamp s i =
     (if i < 0 then nat (max 0 (int (length s) + i)) else min (nat i) (length s))"

definition py_slice :: "string \<Rightarrow> int \<Rightarrow> int \<Rightarrow> string" where
  "py_slice s a b = drop (py_clamp s a) (take (py_clamp s b) s)"

section \<open>The response normalizer\<close>

definition fence :: string where
  "fence = [CHR 0x60, CHR 0x60, CHR 0x60]"

text \<open>
  Lines 165 to 170 of \<open>structure_ocr_to_json\<close> (and 361 to 365 of \<open>main\<close>): the
  value of \<open>response_text\<close> after the fence check.
\<close>

definition remove_code_fences :: "string \<Rightarrow> string" where
  "remove_code_fences response_text =
     (if py_startswith response_text fence then
        (let start_idx = py_find response_text CHR ''{'';
             end_idx = py_rfind response_text CHR ''}''
         in if start_idx \<noteq> - 1 \<and> end_idx \<noteq> - 1
            then py_slice response_text start_idx (end_idx + 1)
            else response_text)
      else response_text)"

text \<open>
  Lines 161 to 170: the argument of \<open>json.loads\<close> on line 172, as a function of
  \<open>response.output_text\<close>.
\<close>

definition decoder_input :: "string \<Rightarrow> string" where
  "decoder_input output_text = remove_code_fences (py_strip output_text)"

section \<open>Python values and exceptions\<close>

text \<open>
  The values \<open>json.loads\<close> produces and the entry points return. A finite float is
  the real number it denotes; \<open>json.loads\<close> also accepts \<open>NaN\<close> and the infinities.
  A \<open>dict\<close> is an association list read with \<open>map_of\<close> and written with
  \<open>AList.update\<close>, which keeps a key's position and appends a new key.
\<close>

datatype pyfloat = Finite real | PosInf | NegInf | NaN

datatype pyval =
    PyNone
  | PyBool bool
  | PyInt int
  | PyFloat pyfloat
  | PyStr string
  | PyList "pyval list"
  | PyDict "(string \<times> pyval) list"

datatype pyexn =
    JSONDecodeError string
  | AttributeError string
  | TypeError string
  | ValueError string
  | RecursionError string
  | OtherException string

text \<open>\<open>str(e)\<close>.\<close>

fun exn_str :: "pyexn \<Rightarrow> string" where
  "exn_str (JSONDecodeError m) = m"
| "exn_str (AttributeError m) = m"
| "exn_str (TypeError m) = m"
| "exn_str (ValueError m) = m"
| "exn_str (RecursionError m) = m"
| "exn_str (OtherException m) = m"

datatype 'a outcome = Return 'a | Raise pyexn

text \<open>Truth value testing, as \<open>not x\<close> and \<open>x or y\<close> use it.\<close>

fun truthy :: "pyval \<Rightarrow> bool" where
  "truthy PyNone = False"
| "truthy (PyBool b) = b"
| "truthy (PyInt i) = (i \<noteq> 0)"
| "truthy (PyFloat f) = (f \<noteq> Finite 0)"
| "truthy (PyStr s) = (s \<noteq> [])"
| "truthy (PyList xs) = (xs \<noteq> [])"
| "truthy (PyDict d) = (d \<noteq> [])"

definition py_or :: "pyval \<Rightarrow> pyval \<Rightarrow> pyval" where
  "py_or a b = (if truthy a then a else b)"

fun type_name :: "pyval \<Rightarrow> string" where
  "type_name PyNone = ''NoneType''"
| "type_name (PyBool _) = ''bool''"
| "type_name (PyInt _) = ''int''"
| "type_name (PyFloat _) = ''float''"
| "type_name (PyStr _) = ''str''"
| "type_name (PyList _) = ''list''"
| "type_name (PyDict _) = ''dict''"

definition quoted :: "string \<Rightarrow> string" where
  "quoted s = CHR 0x27 # s @ [CHR 0x27]"

text \<open>\<open>d.get(k, default)\<close> on a dict.\<close>

definition dict_get :: "(string \<times> pyval) list \<Rightarrow> string \<Rightarrow> pyval \<Rightarrow> pyval" where
  "dict_get d k dflt = (case map_of d k of Some v \<Rightarrow> v | None \<Rightarrow> dflt)"

text \<open>
  Looking up the attribute \<open>get\<close> of a decoded value: only a dict has it, any other
  value raises \<open>AttributeError\<close>.
\<close>

definition attr_get :: "pyval \<Rightarrow> pyexn + (string \<times> pyval) list" where
  "attr_get v =
     (case v of
        PyDict d \<Rightarrow> Inr d
      | _ \<Rightarrow> Inl (AttributeError
                 (quoted (type_name v) @ '' object has no attribute '' @ quoted ''get'')))"

text \<open>\<open>len(x)\<close>.\<close>

definition py_len :: "pyval \<Rightarrow> pyexn + int" where
  "py_len v =
     (case v of
        PyStr s \<Rightarrow> Inr (int (length s))
      | PyList xs \<Rightarrow> Inr (int (length xs))
      | PyDict d \<Rightarrow> Inr (int (length (remdups (map fst d))))
      | _ \<Rightarrow> Inl (TypeError (''object of type '' @ quoted (type_name v) @ '' has no len()'')))"

text \<open>\<open>x[k] = v\<close> for a string key \<open>k\<close>.\<close>

definition py_setitem :: "pyval \<Rightarrow> string \<Rightarrow> pyval \<Rightarrow> pyexn + pyval" where
  "py_setitem x k v =
     (case x of
        PyDict d \<Rightarrow> Inr (PyDict (AList.update k v d))
      | PyList _ \<Rightarrow> Inl (TypeError ''list indices must be integers or slices, not str'')
      | _ \<Rightarrow> Inl (TypeError (quoted (type_name x) @ '' object does not support item assignment'')))"

section \<open>Collaborators\<close>

text \<open>
  What the module takes from outside: the JSON decoder of the standard library (it
  returns a value or raises: \<open>JSONDecodeError\<close> on a text that is not JSON,
  \<open>RecursionError\<close> on nesting too deep, \<open>ValueError\<close> on an integer of too many
  digits), the four calls into the
  SDK of the model provider (each may raise), the clock, the module-level
  \<open>model_deployment_name\<close>, and \<open>str\<close> of a value that is not a string.
  Every entry point reads the clock once and makes each SDK call at most once, so a
  collaborator is a value or a function of its argument. Logging is left out; an exception
  that is not an \<open>Exception\<close> (\<open>KeyboardInterrupt\<close>) is outside the model.
\<close>

record env =
  json_decode :: "string \<Rightarrow> pyexn + pyval"
  new_client :: "pyexn option"
  create_version :: "pyexn option"
  get_openai_client :: "pyexn option"
  responses_create :: "string \<Rightarrow> pyexn + string"
  now_isoformat :: string
  model_deployment_name :: string
  py_repr :: "pyval \<Rightarrow> string"

text \<open>The calls made on the collaborators of the model provider, in order.\<close>

datatype event =
    NewClient
  | CreateVersion string
  | GetOpenAIClient
  | ResponsesCreate string

text \<open>
  \<open>json.loads\<close>. A JSON text begins, after blanks, tabs and line ends, with the first
  character of a value: \<open>{\<close>, \<open>[\<close>, a double quote, a minus sign, a digit, or the first
  letter of \<open>true\<close>, \<open>false\<close>, \<open>null\<close>, \<open>NaN\<close> or \<open>Infinity\<close>. On the empty text
  and on a text that begins with any other character the decoder raises
  \<open>JSONDecodeError\<close>, whose \<open>str\<close> is \<open>expecting_value\<close>. What it does on every other
  text is left to the collaborator \<open>json_decode\<close>.
\<close>

definition json_may_begin :: "char \<Rightarrow> bool" where
  "json_may_begin c =
     (c \<in> set (''{[-0123456789tfnNI'' @ [CHR 0x22, CHR '' '', CHR 0x09, CHR 0x0A, CHR 0x0D]))"

definition expecting_value :: string where
  "expecting_value = ''Expecting value: line 1 column 1 (char 0)''"

definition json_loads :: "env \<Rightarrow> string \<Rightarrow> pyexn + pyval" where
  "json_loads e s =
     (if s \<noteq> [] \<and> json_may_begin (hd s) then json_decode e s
      else Inl (JSONDecodeError expecting_value))"

section \<open>structure_ocr_to_json\<close>

definition nl :: char where
  "nl = CHR 0x0A"

text \<open>How an f-string shows a value.\<close>

definition py_str :: "env \<Rightarrow> pyval \<Rightarrow> string" where
  "py_str e v = (case v of PyStr s \<Rightarrow> s | _ \<Rightarrow> py_repr e v)"

definition query_prefix :: string where
  "query_prefix =
     ''Please extract and structure all text from the following OCR output into the standardized JSON format.''
     @ [nl, nl] @ ''---OCR TEXT START---'' @ [nl]"

definition query_suffix :: string where
  "query_suffix =
     [nl] @ ''---OCR TEXT END---'' @ [nl, nl]
     @ ''Return only the structured JSON object with all extracted text.''"

definition user_query :: "env \<Rightarrow> pyval \<Rightarrow> string" where
  "user_query e ocr_text = query_prefix @ py_str e ocr_text @ query_suffix"

text \<open>
  The body of the \<open>try\<close> of \<open>structure_ocr_to_json\<close>, lines 113 to 183. The result is
  the returned dict, or the exception raised together with the value of the local
  \<open>response_text\<close> at that moment (\<open>None\<close> while it is unbound), which the first handler
  reads. \<open>client_given\<close> says that the caller passed a \<open>project_client\<close>.
\<close>

definition try_body ::
  "env \<Rightarrow> pyval \<Rightarrow> pyval \<Rightarrow> bool \<Rightarrow> ((pyexn \<times> string option) + pyval) \<times> event list" where
  "try_body e ocr_text source_file client_given =
     (let evs0 = (if client_given then [] else [NewClient]) in
      case (if client_given then None else new_client e) of
        Some x \<Rightarrow> (Inl (x, None), evs0)
      | None \<Rightarrow>
     (let evs1 = evs0 @ [CreateVersion (model_deployment_name e)] in
      case create_version e of
        Some x \<Rightarrow> (Inl (x, None), evs1)
      | None \<Rightarrow>
     (let evs2 = evs1 @ [GetOpenAIClient] in
      case get_openai_client e of
        Some x \<Rightarrow> (Inl (x, None), evs2)
      | None \<Rightarrow>
     (let query = user_query e ocr_text;
          evs3 = evs2 @ [ResponsesCreate query] in
      case responses_create e query of
        Inl x \<Rightarrow> (Inl (x, None), evs3)
      | Inr output_text \<Rightarrow>
     (let response_text = remove_code_fences (py_strip output_text) in
      case json_loads e response_text of
        Inl x \<Rightarrow> (Inl (x, Some response_text), evs3)
      | Inr structured_data \<Rightarrow>
     (case py_len ocr_text of
        Inl x \<Rightarrow> (Inl (x, Some response_text), evs3)
      | Inr n \<Rightarrow>
     (case py_setitem structured_data ''metadata''
             (PyDict [(''source_file'', py_or source_file (PyStr ''unknown'')),
                      (''processing_timestamp'', PyStr (now_isoformat e)),
                      (''agent_model'', PyStr (model_deployment_name e)),
                      (''original_text_length'', PyInt n)]) of
        Inl x \<Rightarrow> (Inl (x, Some response_text), evs3)
      | Inr r \<Rightarrow> (Inr r, evs3))))))))"

text \<open>The two handlers, lines 185 to 208.\<close>

definition json_error_result :: "env \<Rightarrow> pyval \<Rightarrow> string \<Rightarrow> string option \<Rightarrow> pyval" where
  "json_error_result e source_file m response_text =
     PyDict [(''error'', PyStr ''JSON parsing failed''),
             (''error_details'', PyStr m),
             (''raw_response'',
                PyStr (case response_text of Some t \<Rightarrow> t | None \<Rightarrow> ''No response'')),
             (''metadata'',
                PyDict [(''source_file'', py_or source_file (PyStr ''unknown'')),
                        (''processing_timestamp'', PyStr (now_isoformat e)),
                        (''agent_model'', PyStr (model_deployment_name e))])]"

definition failure_result :: "env \<Rightarrow> pyval \<Rightarrow> pyexn \<Rightarrow> pyval" where
  "failure_result e source_file x =
     PyDict [(''error'', PyStr ''Processing failed''),
             (''error_details'', PyStr (exn_str x)),
             (''metadata'',
                PyDict [(''source_file'', py_or source_file (PyStr ''unknown'')),
                        (''processing_timestamp'', PyStr (now_isoformat e))])]"

definition structure_ocr_to_json ::
  "env \<Rightarrow> pyval \<Rightarrow> pyval \<Rightarrow> bool \<Rightarrow> pyval outcome \<times> event list" where
  "structure_ocr_to_json e ocr_text source_file client_given =
     (case try_body e ocr_text source_file client_given of
        (Inr structured_data, evs) \<Rightarrow> (Return structured_data, evs)
      | (Inl (JSONDecodeError m, response_text), evs) \<Rightarrow>
          (Return (json_error_result e source_file m response_text), evs)
      | (Inl (x, _), evs) \<Rightarrow> (Return (failure_result e source_file x), evs))"

section \<open>process_ocr_result\<close>

definition ocr_failed_result :: "env \<Rightarrow> (string \<times> pyval) list \<Rightarrow> pyval" where
  "ocr_failed_result e ocr_data =
     PyDict [(''error'', PyStr ''OCR processing failed''),
             (''ocr_error'', dict_get ocr_data ''error'' (PyStr ''Unknown error'')),
             (''metadata'',
                PyDict [(''source_file'', dict_get ocr_data ''file_path'' (PyStr ''unknown'')),
                        (''processing_timestamp'', PyStr (now_isoformat e))])]"

definition no_text_result :: "env \<Rightarrow> pyval \<Rightarrow> pyval" where
  "no_text_result e source_file =
     PyDict [(''error'', PyStr ''No text extracted from OCR''),
             (''metadata'',
                PyDict [(''source_file'', py_or source_file (PyStr ''unknown'')),
                        (''processing_timestamp'', PyStr (now_isoformat e))])]"

definition invalid_json_result :: "env \<Rightarrow> string \<Rightarrow> pyval" where
  "invalid_json_result e m =
     PyDict [(''error'', PyStr ''Invalid OCR result JSON''),
             (''error_details'', PyStr m),
             (''metadata'', PyDict [(''processing_timestamp'', PyStr (now_isoformat e))])]"

text \<open>
  Lines 221 to 258. The only handler is for \<open>JSONDecodeError\<close>; in the body only
  \<open>json.loads\<close> on line 223 and the lookup of \<open>get\<close> on line 225 raise, since
  \<open>structure_ocr_to_json\<close> returns on every path. Any other exception leaves the
  function.
\<close>

definition process_ocr_result :: "env \<Rightarrow> string \<Rightarrow> pyval outcome \<times> event list" where
  "process_ocr_result e ocr_result_json =
     (case json_loads e ocr_result_json of
        Inl (JSONDecodeError m) \<Rightarrow> (Return (invalid_json_result e m), [])
      | Inl x \<Rightarrow> (Raise x, [])
      | Inr decoded \<Rightarrow>
          (case attr_get decoded of
             Inl x \<Rightarrow> (Raise x, [])
           | Inr ocr_data \<Rightarrow>
               if dict_get ocr_data ''status'' PyNone \<noteq> PyStr ''success''
               then (Return (ocr_failed_result e ocr_data), [])
               else
                 (let ocr_text = dict_get ocr_data ''text'' (PyStr []);
                      source_file = dict_get ocr_data ''file_path'' PyNone
                  in if \<not> truthy ocr_text
                     then (Return (no_text_result e source_file), [])
                     else structure_ocr_to_json e ocr_text source_file False)))"

section \<open>The output file of the command line\<close>

text \<open>\<open>s.rsplit(c, 1)[0]\<close>: the text before the last \<open>c\<close>, or all of \<open>s\<close> without one.\<close>

definition py_rsplit1_head :: "string \<Rightarrow> char \<Rightarrow> string" where
  "py_rsplit1_head s c =
     (let i = py_rfind s c in if i = - 1 then s else take (nat i) s)"

text \<open>Line 383 of \<open>main\<close>.\<close>

definition output_file :: "string \<Rightarrow> string" where
  "output_file input_file = py_rsplit1_head input_file CHR ''.'' @ ''_structured.json''"

section \<open>Predicates on results, and test doubles\<close>

text \<open>
  A returned mapping carries the time of processing: it is a dict whose \<open>metadata\<close>
  is a dict with the key \<open>processing_timestamp\<close>.
\<close>

definition has_timestamp :: "pyval \<Rightarrow> bool" where
  "has_timestamp r =
     (case r of
        PyDict d \<Rightarrow>
          (case map_of d ''metadata'' of
             Some (PyDict m) \<Rightarrow> map_of m ''processing_timestamp'' \<noteq> None
           | _ \<Rightarrow> False)
      | _ \<Rightarrow> False)"

text \<open>
  Collaborators for the concrete runs below. \<open>stub_decode\<close> gives the answers of
  \<open>json.loads\<close> on the texts those runs decode: the values of six JSON texts, the
  \<open>JSONDecodeError\<close> on \<open>{x}\<close>, and the \<open>RecursionError\<close> on \<open>deep_nesting\<close>, a
  hundred thousand opening brackets. \<open>stub_repr\<close> is \<open>str\<close> of the one list they
  format. In \<open>stub_env reply\<close> every call into the SDK succeeds and the model answers
  \<open>reply\<close>.
\<close>

definition deep_nesting :: string where
  "deep_nesting = replicate 100000 CHR ''[''"

definition stub_decode :: "string \<Rightarrow> pyexn + pyval" where
  \<open>stub_decode s =
     (if s = ''[]'' then Inr (PyList [])
      else if s = ''{"status": "error", "error": "scan failed"}''
        then Inr (PyDict [(''status'', PyStr ''error''), (''error'', PyStr ''scan failed'')])
      else if s = ''{"status": "success", "text": ""}''
        then Inr (PyDict [(''status'', PyStr ''success''), (''text'', PyStr [])])
      else if s = ''{"status": "success", "text": null}''
        then Inr (PyDict [(''status'', PyStr ''success''), (''text'', PyNone)])
      else if s = ''{"status": "success", "text": "INVOICE 42"}''
        then Inr (PyDict [(''status'', PyStr ''success''), (''text'', PyStr ''INVOICE 42'')])
      else if s = ''{"status": "success", "text": ["a", "b"]}''
        then Inr (PyDict [(''status'', PyStr ''success''),
                          (''text'', PyList [PyStr ''a'', PyStr ''b''])])
      else if s = ''{"document_type": "invoice", "metadata": "mine"}''
        then Inr (PyDict [(''document_type'', PyStr ''invoice''), (''metadata'', PyStr ''mine'')])
      else if s = ''{x}''
        then Inl (JSONDecodeError
               ''Expecting property name enclosed in double quotes: line 1 column 2 (char 1)'')
      else if s = deep_nesting
        then Inl (RecursionError
               ''maximum recursion depth exceeded while decoding a JSON array from a unicode string'')
      else Inl (JSONDecodeError ''Expecting value: line 1 column 1 (char 0)''))\<close>

definition stub_repr :: "pyval \<Rightarrow> string" where
  "stub_repr v =
     (if v = PyList [PyStr ''a'', PyStr ''b'']
      then ''['' @ quoted ''a'' @ '', '' @ quoted ''b'' @ '']''
      else [])"

definition stub_env :: "string \<Rightarrow> env" where
  "stub_env reply =
     \<lparr>json_decode = stub_decode,
      new_client = None,
      create_version = None,
      get_openai_client = None,
      responses_create = (\<lambda>_. Inr reply),
      now_isoformat = ''2025-03-01T09:30:00.000000'',
      model_deployment_name = ''gpt-4o-mini'',
      py_repr = stub_repr\<rparr>"

section \<open>Facts about the string operations\<close>

lemma takeWhile_until:
  "c \<notin> set xs \<Longrightarrow> takeWhile (\<lambda>x. x \<noteq> c) (xs @ c # ys) = xs"
  by (induction xs) auto


lemma py_rfind_last:
  assumes "c \<notin> set post"
  shows "py_rfind (xs @ c # post) c = int (length xs)"
proof -
  have "rev (xs @ c # post) = rev post @ c # rev xs" by simp
  moreover have "c \<notin> set (rev post)" using assms by simp
  ultimately have "takeWhile (\<lambda>x. x \<noteq> c) (rev (xs @ c # post)) = rev post"
    using takeWhile_until by metis
  then show ?thesis by (simp add: py_rfind_def)
qed





lemma py_rstrip_Cons:
  "\<not> py_isspace a \<Longrightarrow> py_rstrip (a # l) = a # py_rstrip l"
  by (simp add: py_rstrip_def dropWhile_append)


lemma set_py_rstrip: "set (py_rstrip s) \<subseteq> set s"
  unfolding py_rstrip_def using set_dropWhileD by fastforce


text \<open>A text with no whitespace at either end is its own \<open>strip\<close>.\<close>

lemma py_strip_id:
  assumes "s \<noteq> []" and "\<not> py_isspace (hd s)" and "\<not> py_isspace (last s)"
  shows "py_strip s = s"
proof -
  have "py_lstrip s = s" using assms(1,2) by (cases s) (simp_all add: py_lstrip_def)
  moreover have "py_rstrip s = s"
    using assms(1,3) by (cases s rule: rev_cases) (simp_all add: py_rstrip_def)
  ultimately show ?thesis by (simp add: py_strip_def)
qed


section \<open>Facts about the fence removal\<close>

lemma remove_code_fences_plain:
  "\<not> py_startswith s fence \<Longrightarrow> remove_code_fences s = s"
  by (simp add: remove_code_fences_def)

lemma remove_code_fences_no_brace:
  "CHR ''{'' \<notin> set s \<or> CHR ''}'' \<notin> set s \<Longrightarrow> remove_code_fences s = s"
  by (auto simp add: remove_code_fences_def py_find_def py_rfind_def Let_def)





lemma py_lstrip_fence: "py_startswith s fence \<Longrightarrow> py_lstrip s = s"
  by (cases s) (auto simp add: py_startswith_def fence_def py_lstrip_def py_isspace_def)




section \<open>The response normalizer: what the decoder is given\<close>






section \<open>Facts about the entry points\<close>

text \<open>
  A \<open>try\<close> body that returns did every call on the collaborators, decoded a dict and
  wrote \<open>metadata\<close> into it.
\<close>

lemma try_body_Inr:
  assumes "try_body e ocr_text source_file cg = (Inr r, evs)"
  shows "\<exists>out decoded n.
      (cg \<or> new_client e = None) \<and> create_version e = None \<and> get_openai_client e = None
      \<and> responses_create e (user_query e ocr_text) = Inr out
      \<and> json_loads e (decoder_input out) = Inr (PyDict decoded)
      \<and> py_len ocr_text = Inr n
      \<and> r = PyDict (AList.update ''metadata''
             (PyDict [(''source_file'', py_or source_file (PyStr ''unknown'')),
                      (''processing_timestamp'', PyStr (now_isoformat e)),
                      (''agent_model'', PyStr (model_deployment_name e)),
                      (''original_text_length'', PyInt n)]) decoded)
      \<and> evs = (if cg then [] else [NewClient])
               @ [CreateVersion (model_deployment_name e), GetOpenAIClient,
                  ResponsesCreate (user_query e ocr_text)]"
  using assms
  by (auto simp add: try_body_def Let_def py_setitem_def decoder_input_def
      split: option.splits sum.splits if_splits pyval.splits)

text \<open>
  A reply that the decoder rejects leaves the \<open>try\<close> body at line 172, with
  \<open>response_text\<close> bound to what the decoder was given.
\<close>

lemma try_body_decode_failure:
  assumes "cg \<or> new_client e = None" and "create_version e = None"
    and "get_openai_client e = None"
    and "responses_create e (user_query e ocr_text) = Inr out"
    and "json_loads e (decoder_input out) = Inl x"
  shows "try_body e ocr_text source_file cg =
      (Inl (x, Some (decoder_input out)),
       (if cg then [] else [NewClient])
       @ [CreateVersion (model_deployment_name e), GetOpenAIClient,
          ResponsesCreate (user_query e ocr_text)])"
  using assms by (auto simp add: try_body_def Let_def decoder_input_def)

text \<open>The handler that takes it: line 185 for a \<open>JSONDecodeError\<close>, line 199 for the rest.\<close>

lemma structure_decode_failure:
  assumes "cg \<or> new_client e = None" and "create_version e = None"
    and "get_openai_client e = None"
    and "responses_create e (user_query e ocr_text) = Inr out"
    and "json_loads e (decoder_input out) = Inl x"
  shows "structure_ocr_to_json e ocr_text source_file cg =
      (Return (case x of
                 JSONDecodeError m \<Rightarrow> json_error_result e source_file m (Some (decoder_input out))
               | _ \<Rightarrow> failure_result e source_file x),
       (if cg then [] else [NewClient])
       @ [CreateVersion (model_deployment_name e), GetOpenAIClient,
          ResponsesCreate (user_query e ocr_text)])"
  using try_body_decode_failure [OF assms, of source_file]
  by (cases x) (simp_all add: structure_ocr_to_json_def)

text \<open>The decoder rejects a text that begins with the fence marker.\<close>

lemma json_loads_fenced:
  assumes "py_startswith out fence"
  shows "json_loads e (py_strip out) = Inl (JSONDecodeError expecting_value)"
proof -
  obtain rest where o: "out = CHR 0x60 # rest"
    using assms by (cases out) (auto simp add: py_startswith_def fence_def)
  have n: "\<not> py_isspace (CHR 0x60)" by (simp add: py_isspace_def)
  have "py_strip out = CHR 0x60 # py_rstrip rest"
    using o n assms by (simp add: py_strip_def py_lstrip_fence py_rstrip_Cons)
  then show ?thesis by (simp add: json_loads_def json_may_begin_def)
qed

text \<open>The text \<open>deep_nesting\<close> reaches the decoder as it is, and the decoder's answer.\<close>

lemma deep_nesting_decoder_input: "decoder_input deep_nesting = deep_nesting"
proof -
  have a: "deep_nesting \<noteq> []" "hd deep_nesting = CHR ''[''" "last deep_nesting = CHR ''[''"
    by (simp_all add: deep_nesting_def)
  have "take 3 deep_nesting = replicate 3 CHR ''[''"
    by (simp add: deep_nesting_def)
  then have f: "\<not> py_startswith deep_nesting fence"
    by (simp add: py_startswith_def fence_def numeral_3_eq_3)
  have "py_strip deep_nesting = deep_nesting"
    using a by (intro py_strip_id) (simp_all add: py_isspace_def)
  then show ?thesis using f by (simp add: decoder_input_def remove_code_fences_plain)
qed

lemma deep_nesting_json_loads:
  "json_loads (stub_env r) deep_nesting =
     Inl (RecursionError
       ''maximum recursion depth exceeded while decoding a JSON array from a unicode string'')"
proof -
  have a: "deep_nesting \<noteq> []" "hd deep_nesting = CHR ''[''"
    by (simp_all add: deep_nesting_def)
  have l: "length deep_nesting = 100000" by (simp add: deep_nesting_def)
  have ne: "deep_nesting \<noteq> t" if "length t < 100000" for t
    using that l by auto
  have "stub_decode deep_nesting =
     Inl (RecursionError
       ''maximum recursion depth exceeded while decoding a JSON array from a unicode string'')"
    unfolding stub_decode_def by (simp add: ne)
  then show ?thesis using a by (simp add: json_loads_def json_may_begin_def stub_env_def)
qed

text \<open>
  \<open>structure_ocr_to_json\<close> returns on every path: its second handler catches what
  the first does not.
\<close>

lemma structure_returns:
  "\<exists>r evs. structure_ocr_to_json e t sf cg = (Return r, evs)"
  by (auto simp add: structure_ocr_to_json_def split: prod.splits sum.splits pyexn.splits)

lemma structure_timestamp:
  assumes "structure_ocr_to_json e t sf cg = (Return r, evs)"
  shows "has_timestamp r"
proof (cases "try_body e t sf cg")
  case (Pair x evs')
  show ?thesis
  proof (cases x)
    case (Inr v)
    then have "r = v" using assms Pair by (simp add: structure_ocr_to_json_def)
    moreover obtain decoded m where "v = PyDict (AList.update ''metadata'' (PyDict m) decoded)"
      "map_of m ''processing_timestamp'' \<noteq> None"
      using try_body_Inr[of e t sf cg v evs'] Pair Inr by auto
    ultimately show ?thesis by (simp add: has_timestamp_def update_conv)
  next
    case (Inl p)
    then show ?thesis using assms Pair
      by (cases p; cases "fst p")
         (auto simp add: structure_ocr_to_json_def has_timestamp_def json_error_result_def
          failure_result_def)
  qed
qed

lemma decoder_input_no_brace:
  assumes "CHR ''{'' \<notin> set out \<or> CHR ''}'' \<notin> set out"
  shows "decoder_input out = py_strip out"
proof -
  have "set (py_strip out) \<subseteq> set out"
    unfolding py_strip_def py_lstrip_def
    using set_py_rstrip set_dropWhileD by fastforce
  then have "CHR ''{'' \<notin> set (py_strip out) \<or> CHR ''}'' \<notin> set (py_strip out)"
    using assms by blast
  then show ?thesis by (simp add: decoder_input_def remove_code_fences_no_brace)
qed

text \<open>
  A concrete run: the model answers a JSON object that has a \<open>metadata\<close> of its own.
\<close>

lemma stub_try_body:
  \<open>try_body (stub_env ''{"document_type": "invoice", "metadata": "mine"}'')
      (PyStr ''INVOICE 42'') sf False =
     (Inr (PyDict
        [(''document_type'', PyStr ''invoice''),
         (''metadata'',
            PyDict [(''source_file'', py_or sf (PyStr ''unknown'')),
                    (''processing_timestamp'', PyStr ''2025-03-01T09:30:00.000000''),
                    (''agent_model'', PyStr ''gpt-4o-mini''),
                    (''original_text_length'', PyInt 10)])]),
      [NewClient, CreateVersion ''gpt-4o-mini'', GetOpenAIClient,
       ResponsesCreate (query_prefix @ ''INVOICE 42'' @ query_suffix)])\<close>
proof -
  have d: \<open>decoder_input ''{"document_type": "invoice", "metadata": "mine"}''
      = ''{"document_type": "invoice", "metadata": "mine"}''\<close>
    by (simp add: decoder_input_def remove_code_fences_def py_startswith_def fence_def
        py_strip_def py_lstrip_def py_rstrip_def py_isspace_def)
  show ?thesis
    unfolding try_body_def Let_def decoder_input_def [symmetric]
    by (simp add: stub_env_def d stub_decode_def json_loads_def json_may_begin_def py_len_def py_setitem_def
        user_query_def py_str_def)
qed

section \<open>structure_ocr_to_json: the structured result and the decode failure\<close>

text \<open>
  C3, as stated, fails: \<open>original_text_length\<close> is \<open>len(ocr_text)\<close>, which is a
  character count only when \<open>ocr_text\<close> is a string. \<open>process_ocr_result\<close> passes the
  payload's \<open>text\<close> on as it is; for the list of the two strings \<open>a\<close> and \<open>b\<close> the
  structured result says 2, while the query sent to the model holds the ten characters
  of \<open>str\<close> of that list.
\<close>

theorem structured_result_metadata_counterexample:
  \<open>process_ocr_result (stub_env ''{"document_type": "invoice", "metadata": "mine"}'')
      ''{"status": "success", "text": ["a", "b"]}'' =
     structure_ocr_to_json (stub_env ''{"document_type": "invoice", "metadata": "mine"}'')
       (PyList [PyStr ''a'', PyStr ''b'']) PyNone False
   \<and> structure_ocr_to_json (stub_env ''{"document_type": "invoice", "metadata": "mine"}'')
       (PyList [PyStr ''a'', PyStr ''b'']) PyNone False =
     (Return (PyDict
        [(''document_type'', PyStr ''invoice''),
         (''metadata'',
            PyDict [(''source_file'', PyStr ''unknown''),
                    (''processing_timestamp'', PyStr ''2025-03-01T09:30:00.000000''),
                    (''agent_model'', PyStr ''gpt-4o-mini''),
                    (''original_text_length'', PyInt 2)])]),
      [NewClient, CreateVersion ''gpt-4o-mini'', GetOpenAIClient,
       ResponsesCreate
         (query_prefix @ (''['' @ quoted ''a'' @ '', '' @ quoted ''b'' @ '']'') @ query_suffix)])
   \<and> int (length (''['' @ quoted ''a'' @ '', '' @ quoted ''b'' @ '']'')) = 10\<close>
proof -
  let ?e = \<open>stub_env ''{"document_type": "invoice", "metadata": "mine"}''\<close>
  have d: \<open>decoder_input ''{"document_type": "invoice", "metadata": "mine"}''
      = ''{"document_type": "invoice", "metadata": "mine"}''\<close>
    by (simp add: decoder_input_def remove_code_fences_def py_startswith_def fence_def
        py_strip_def py_lstrip_def py_rstrip_def py_isspace_def)
  have t: \<open>try_body ?e (PyList [PyStr ''a'', PyStr ''b'']) PyNone False =
     (Inr (PyDict
        [(''document_type'', PyStr ''invoice''),
         (''metadata'',
            PyDict [(''source_file'', PyStr ''unknown''),
                    (''processing_timestamp'', PyStr ''2025-03-01T09:30:00.000000''),
                    (''agent_model'', PyStr ''gpt-4o-mini''),
                    (''original_text_length'', PyInt 2)])]),
      [NewClient, CreateVersion ''gpt-4o-mini'', GetOpenAIClient,
       ResponsesCreate
         (query_prefix @ (''['' @ quoted ''a'' @ '', '' @ quoted ''b'' @ '']'') @ query_suffix)])\<close>
    unfolding try_body_def Let_def decoder_input_def [symmetric]
    by (simp add: stub_env_def d stub_decode_def json_loads_def json_may_begin_def py_len_def
        py_setitem_def py_or_def user_query_def py_str_def stub_repr_def)
  have l: \<open>json_loads ?e ''{"status": "success", "text": ["a", "b"]}'' =
      Inr (PyDict [(''status'', PyStr ''success''),
                   (''text'', PyList [PyStr ''a'', PyStr ''b''])])\<close>
    by (simp add: stub_env_def stub_decode_def json_loads_def json_may_begin_def)
  have p: \<open>process_ocr_result ?e ''{"status": "success", "text": ["a", "b"]}'' =
     structure_ocr_to_json ?e (PyList [PyStr ''a'', PyStr ''b'']) PyNone False\<close>
    unfolding process_ocr_result_def l by (simp add: attr_get_def dict_get_def)
  have s: \<open>structure_ocr_to_json ?e (PyList [PyStr ''a'', PyStr ''b'']) PyNone False =
     (Return (PyDict
        [(''document_type'', PyStr ''invoice''),
         (''metadata'',
            PyDict [(''source_file'', PyStr ''unknown''),
                    (''processing_timestamp'', PyStr ''2025-03-01T09:30:00.000000''),
                    (''agent_model'', PyStr ''gpt-4o-mini''),
                    (''original_text_length'', PyInt 2)])]),
      [NewClient, CreateVersion ''gpt-4o-mini'', GetOpenAIClient,
       ResponsesCreate
         (query_prefix @ (''['' @ quoted ''a'' @ '', '' @ quoted ''b'' @ '']'') @ query_suffix)])\<close>
    unfolding structure_ocr_to_json_def t by simp
  have n: "int (length (''['' @ quoted ''a'' @ '', '' @ quoted ''b'' @ '']'')) = 10"
    by (simp add: quoted_def)
  show ?thesis by (intro conjI p s n)
qed

text \<open>
  C3, amended. Every structured result of \<open>structure_ocr_to_json\<close>, that is every value
  its \<open>try\<close> body returns, is the dict the decoder made of the model's reply with the
  key \<open>metadata\<close> set to a dict of \<open>source_file\<close>, \<open>processing_timestamp\<close>,
  \<open>agent_model\<close> and \<open>original_text_length\<close>; a \<open>metadata\<close> of the reply is
  overwritten and every other key is kept. \<open>original_text_length\<close> is \<open>len(ocr_text)\<close>:
  for a string, the number of characters of the OCR text, which the query sent to the
  model holds verbatim between its two delimiter lines; for a list its number of items,
  for a dict its number of keys.
\<close>

theorem structured_result_metadata:
  assumes "try_body e ocr_text source_file cg = (Inr r, evs)"
  shows "structure_ocr_to_json e ocr_text source_file cg = (Return r, evs)
   \<and> last evs = ResponsesCreate (query_prefix @ py_str e ocr_text @ query_suffix)
   \<and> (\<exists>out decoded d n.
         responses_create e (query_prefix @ py_str e ocr_text @ query_suffix) = Inr out
         \<and> json_loads e (decoder_input out) = Inr (PyDict decoded)
         \<and> r = PyDict d
         \<and> map_of d ''metadata'' =
             Some (PyDict [(''source_file'', py_or source_file (PyStr ''unknown'')),
                           (''processing_timestamp'', PyStr (now_isoformat e)),
                           (''agent_model'', PyStr (model_deployment_name e)),
                           (''original_text_length'', PyInt n)])
         \<and> (\<forall>k. k \<noteq> ''metadata'' \<longrightarrow> map_of d k = map_of decoded k)
         \<and> (\<forall>s. ocr_text = PyStr s \<longrightarrow> n = int (length s) \<and> py_str e ocr_text = s)
         \<and> (\<forall>xs. ocr_text = PyList xs \<longrightarrow> n = int (length xs))
         \<and> (\<forall>kvs. ocr_text = PyDict kvs \<longrightarrow> n = int (card (fst ` set kvs))))"
proof -
  have q: "user_query e ocr_text = query_prefix @ py_str e ocr_text @ query_suffix"
    by (simp add: user_query_def)
  obtain out decoded n where
    o: "responses_create e (user_query e ocr_text) = Inr out"
      "json_loads e (decoder_input out) = Inr (PyDict decoded)"
      "py_len ocr_text = Inr n"
      "r = PyDict (AList.update ''metadata''
             (PyDict [(''source_file'', py_or source_file (PyStr ''unknown'')),
                      (''processing_timestamp'', PyStr (now_isoformat e)),
                      (''agent_model'', PyStr (model_deployment_name e)),
                      (''original_text_length'', PyInt n)]) decoded)"
      "evs = (if cg then [] else [NewClient])
               @ [CreateVersion (model_deployment_name e), GetOpenAIClient,
                  ResponsesCreate (user_query e ocr_text)]"
    using try_body_Inr [OF assms] by auto
  have 1: "structure_ocr_to_json e ocr_text source_file cg = (Return r, evs)"
    using assms by (simp add: structure_ocr_to_json_def)
  have 2: "last evs = ResponsesCreate (query_prefix @ py_str e ocr_text @ query_suffix)"
    using o(5) q by simp
  have 3: "\<forall>s. ocr_text = PyStr s \<longrightarrow> n = int (length s) \<and> py_str e ocr_text = s"
    using o(3) by (auto simp add: py_len_def py_str_def)
  have 4: "\<forall>xs. ocr_text = PyList xs \<longrightarrow> n = int (length xs)"
    using o(3) by (auto simp add: py_len_def)
  have 5: "\<forall>kvs. ocr_text = PyDict kvs \<longrightarrow> n = int (card (fst ` set kvs))"
    using o(3) by (auto simp add: py_len_def length_remdups_card_conv)
  have 6: "map_of (AList.update ''metadata'' v decoded) ''metadata'' = Some v" for v
    by (simp add: update_conv)
  have 7: "\<forall>k. k \<noteq> ''metadata'' \<longrightarrow>
      map_of (AList.update ''metadata'' v decoded) k = map_of decoded k" for v
    by (simp add: update_conv)
  show ?thesis
    using 1 2 3 4 5 6 7 o(1,2,4) q by (intro conjI exI) (simp_all only:)
qed

theorem structured_result_metadata_witness:
  \<open>structure_ocr_to_json (stub_env ''{"document_type": "invoice", "metadata": "mine"}'')
      (PyStr ''INVOICE 42'') (PyStr ''scan.jpg'') False =
     (Return (PyDict
        [(''document_type'', PyStr ''invoice''),
         (''metadata'',
            PyDict [(''source_file'', PyStr ''scan.jpg''),
                    (''processing_timestamp'', PyStr ''2025-03-01T09:30:00.000000''),
                    (''agent_model'', PyStr ''gpt-4o-mini''),
                    (''original_text_length'', PyInt 10)])]),
      [NewClient, CreateVersion ''gpt-4o-mini'', GetOpenAIClient,
       ResponsesCreate (query_prefix @ ''INVOICE 42'' @ query_suffix)])\<close>
  using structured_result_metadata [OF stub_try_body [of "PyStr ''scan.jpg''"], THEN conjunct1]
  by (simp add: py_or_def)

text \<open>
  C4, as stated, fails twice. The error result does not carry the original response
  text: a fenced reply whose braces hold no JSON reaches the decoder as the text between
  the braces, and \<open>raw_response\<close> is that text, without the fences. And not every
  failure of the decoder is answered with the response text: on \<open>deep_nesting\<close> the
  decoder raises \<open>RecursionError\<close>, the handler of line 199 takes it, and the result has
  the message but no \<open>raw_response\<close> at all.
\<close>

theorem decode_failure_counterexample:
  "structure_ocr_to_json (stub_env (fence @ ''{x}'' @ fence)) (PyStr ''INVOICE 42'') PyNone False =
     (Return (PyDict
        [(''error'', PyStr ''JSON parsing failed''),
         (''error_details'',
            PyStr ''Expecting property name enclosed in double quotes: line 1 column 2 (char 1)''),
         (''raw_response'', PyStr ''{x}''),
         (''metadata'',
            PyDict [(''source_file'', PyStr ''unknown''),
                    (''processing_timestamp'', PyStr ''2025-03-01T09:30:00.000000''),
                    (''agent_model'', PyStr ''gpt-4o-mini'')])]),
      [NewClient, CreateVersion ''gpt-4o-mini'', GetOpenAIClient,
       ResponsesCreate (query_prefix @ ''INVOICE 42'' @ query_suffix)])
   \<and> ''{x}'' \<noteq> fence @ ''{x}'' @ fence
   \<and> structure_ocr_to_json (stub_env deep_nesting) (PyStr ''INVOICE 42'') PyNone False =
     (Return (PyDict
        [(''error'', PyStr ''Processing failed''),
         (''error_details'',
            PyStr ''maximum recursion depth exceeded while decoding a JSON array from a unicode string''),
         (''metadata'',
            PyDict [(''source_file'', PyStr ''unknown''),
                    (''processing_timestamp'', PyStr ''2025-03-01T09:30:00.000000'')])]),
      [NewClient, CreateVersion ''gpt-4o-mini'', GetOpenAIClient,
       ResponsesCreate (query_prefix @ ''INVOICE 42'' @ query_suffix)])"
proof -
  have d: "decoder_input (fence @ ''{x}'' @ fence) = ''{x}''"
    by (simp add: decoder_input_def remove_code_fences_def py_startswith_def fence_def
        py_strip_def py_lstrip_def py_rstrip_def py_isspace_def py_find_def py_rfind_def
        py_slice_def py_clamp_def)
  have "try_body (stub_env (fence @ ''{x}'' @ fence)) (PyStr ''INVOICE 42'') PyNone False =
     (Inl (JSONDecodeError
             ''Expecting property name enclosed in double quotes: line 1 column 2 (char 1)'',
           Some ''{x}''),
      [NewClient, CreateVersion ''gpt-4o-mini'', GetOpenAIClient,
       ResponsesCreate (query_prefix @ ''INVOICE 42'' @ query_suffix)])"
    unfolding try_body_def Let_def decoder_input_def [symmetric]
    by (simp add: stub_env_def d [simplified] stub_decode_def json_loads_def
        json_may_begin_def user_query_def py_str_def)
  then have 1: "structure_ocr_to_json (stub_env (fence @ ''{x}'' @ fence)) (PyStr ''INVOICE 42'')
      PyNone False =
     (Return (PyDict
        [(''error'', PyStr ''JSON parsing failed''),
         (''error_details'',
            PyStr ''Expecting property name enclosed in double quotes: line 1 column 2 (char 1)''),
         (''raw_response'', PyStr ''{x}''),
         (''metadata'',
            PyDict [(''source_file'', PyStr ''unknown''),
                    (''processing_timestamp'', PyStr ''2025-03-01T09:30:00.000000''),
                    (''agent_model'', PyStr ''gpt-4o-mini'')])]),
      [NewClient, CreateVersion ''gpt-4o-mini'', GetOpenAIClient,
       ResponsesCreate (query_prefix @ ''INVOICE 42'' @ query_suffix)])"
    by (simp add: structure_ocr_to_json_def json_error_result_def py_or_def stub_env_def)
  have 2: "''{x}'' \<noteq> fence @ ''{x}'' @ fence" by (simp add: fence_def)
  let ?e = "stub_env deep_nesting"
  have c: "False \<or> new_client ?e = None" "create_version ?e = None"
    "get_openai_client ?e = None"
    "responses_create ?e (user_query ?e (PyStr ''INVOICE 42'')) = Inr deep_nesting"
    by (simp_all add: stub_env_def)
  have l: "json_loads ?e (decoder_input deep_nesting) =
     Inl (RecursionError
       ''maximum recursion depth exceeded while decoding a JSON array from a unicode string'')"
    by (simp only: deep_nesting_decoder_input deep_nesting_json_loads)
  have 3: "structure_ocr_to_json ?e (PyStr ''INVOICE 42'') PyNone False =
     (Return (PyDict
        [(''error'', PyStr ''Processing failed''),
         (''error_details'',
            PyStr ''maximum recursion depth exceeded while decoding a JSON array from a unicode string''),
         (''metadata'',
            PyDict [(''source_file'', PyStr ''unknown''),
                    (''processing_timestamp'', PyStr ''2025-03-01T09:30:00.000000'')])]),
      [NewClient, CreateVersion ''gpt-4o-mini'', GetOpenAIClient,
       ResponsesCreate (query_prefix @ ''INVOICE 42'' @ query_suffix)])"
    using structure_decode_failure [OF c l, of PyNone]
    by (simp add: failure_result_def py_or_def user_query_def py_str_def stub_env_def)
  show ?thesis by (intro conjI 1 2 3)
qed

text \<open>
  C4, amended. Let every call on the collaborators succeed. For every response text on
  which JSON decoding fails, \<open>structure_ocr_to_json\<close> raises nothing and returns an error
  result that carries the decoder's diagnostic message. When the decoder fails with a
  \<open>JSONDecodeError\<close>, the result is \<open>JSON parsing failed\<close> and its \<open>raw_response\<close> is
  the text the decoder was given: the response stripped, and cut to its braces where the
  fence removal applies. When the decoder fails with another exception, the result is
  \<open>Processing failed\<close>, without the text. In particular, for a response that begins with
  the fence marker and lacks a \<open>{\<close> or a \<open>}\<close>, the text the decoder is given is the
  stripped response (the response itself when no whitespace ends it), decoding fails with
  a \<open>JSONDecodeError\<close>, and that text is the \<open>raw_response\<close> of the result.
\<close>

theorem decode_failure_result:
  assumes "cg \<or> new_client e = None" and "create_version e = None"
    and "get_openai_client e = None"
    and "responses_create e (user_query e ocr_text) = Inr out"
  shows "(\<forall>m. json_loads e (decoder_input out) = Inl (JSONDecodeError m) \<longrightarrow>
      structure_ocr_to_json e ocr_text source_file cg =
       (Return (PyDict
          [(''error'', PyStr ''JSON parsing failed''),
           (''error_details'', PyStr m),
           (''raw_response'', PyStr (decoder_input out)),
           (''metadata'',
              PyDict [(''source_file'', py_or source_file (PyStr ''unknown'')),
                      (''processing_timestamp'', PyStr (now_isoformat e)),
                      (''agent_model'', PyStr (model_deployment_name e))])]),
        (if cg then [] else [NewClient])
        @ [CreateVersion (model_deployment_name e), GetOpenAIClient,
           ResponsesCreate (user_query e ocr_text)]))
   \<and> (\<forall>x. json_loads e (decoder_input out) = Inl x \<and> (\<forall>m. x \<noteq> JSONDecodeError m) \<longrightarrow>
      structure_ocr_to_json e ocr_text source_file cg =
       (Return (PyDict
          [(''error'', PyStr ''Processing failed''),
           (''error_details'', PyStr (exn_str x)),
           (''metadata'',
              PyDict [(''source_file'', py_or source_file (PyStr ''unknown'')),
                      (''processing_timestamp'', PyStr (now_isoformat e))])]),
        (if cg then [] else [NewClient])
        @ [CreateVersion (model_deployment_name e), GetOpenAIClient,
           ResponsesCreate (user_query e ocr_text)]))
   \<and> (py_startswith out fence \<and> (CHR ''{'' \<notin> set out \<or> CHR ''}'' \<notin> set out) \<longrightarrow>
      decoder_input out = py_strip out
      \<and> (\<not> py_isspace (last out) \<longrightarrow> decoder_input out = out)
      \<and> json_loads e (decoder_input out) = Inl (JSONDecodeError expecting_value)
      \<and> structure_ocr_to_json e ocr_text source_file cg =
       (Return (PyDict
          [(''error'', PyStr ''JSON parsing failed''),
           (''error_details'', PyStr expecting_value),
           (''raw_response'', PyStr (py_strip out)),
           (''metadata'',
              PyDict [(''source_file'', py_or source_file (PyStr ''unknown'')),
                      (''processing_timestamp'', PyStr (now_isoformat e)),
                      (''agent_model'', PyStr (model_deployment_name e))])]),
        (if cg then [] else [NewClient])
        @ [CreateVersion (model_deployment_name e), GetOpenAIClient,
           ResponsesCreate (user_query e ocr_text)]))"
proof (intro conjI allI impI)
  fix m
  assume "json_loads e (decoder_input out) = Inl (JSONDecodeError m)"
  from structure_decode_failure [OF assms this, of source_file]
  show "structure_ocr_to_json e ocr_text source_file cg =
       (Return (PyDict
          [(''error'', PyStr ''JSON parsing failed''),
           (''error_details'', PyStr m),
           (''raw_response'', PyStr (decoder_input out)),
           (''metadata'',
              PyDict [(''source_file'', py_or source_file (PyStr ''unknown'')),
                      (''processing_timestamp'', PyStr (now_isoformat e)),
                      (''agent_model'', PyStr (model_deployment_name e))])]),
        (if cg then [] else [NewClient])
        @ [CreateVersion (model_deployment_name e), GetOpenAIClient,
           ResponsesCreate (user_query e ocr_text)])"
    by (simp add: json_error_result_def)
next
  fix x
  assume a: "json_loads e (decoder_input out) = Inl x \<and> (\<forall>m. x \<noteq> JSONDecodeError m)"
  then have l: "json_loads e (decoder_input out) = Inl x" by simp
  from structure_decode_failure [OF assms l, of source_file] a
  show "structure_ocr_to_json e ocr_text source_file cg =
       (Return (PyDict
          [(''error'', PyStr ''Processing failed''),
           (''error_details'', PyStr (exn_str x)),
           (''metadata'',
              PyDict [(''source_file'', py_or source_file (PyStr ''unknown'')),
                      (''processing_timestamp'', PyStr (now_isoformat e))])]),
        (if cg then [] else [NewClient])
        @ [CreateVersion (model_deployment_name e), GetOpenAIClient,
           ResponsesCreate (user_query e ocr_text)])"
    by (cases x) (simp_all add: failure_result_def)
next
  assume a: "py_startswith out fence \<and> (CHR ''{'' \<notin> set out \<or> CHR ''}'' \<notin> set out)"
  then have s: "decoder_input out = py_strip out" by (simp add: decoder_input_no_brace)
  have l: "json_loads e (decoder_input out) = Inl (JSONDecodeError expecting_value)"
    using a s json_loads_fenced by simp
  show "decoder_input out = py_strip out" by (rule s)
  show "json_loads e (decoder_input out) = Inl (JSONDecodeError expecting_value)" by (rule l)
  from structure_decode_failure [OF assms l, of source_file]
  show "structure_ocr_to_json e ocr_text source_file cg =
       (Return (PyDict
          [(''error'', PyStr ''JSON parsing failed''),
           (''error_details'', PyStr expecting_value),
           (''raw_response'', PyStr (py_strip out)),
           (''metadata'',
              PyDict [(''source_file'', py_or source_file (PyStr ''unknown'')),
                      (''processing_timestamp'', PyStr (now_isoformat e)),
                      (''agent_model'', PyStr (model_deployment_name e))])]),
        (if cg then [] else [NewClient])
        @ [CreateVersion (model_deployment_name e), GetOpenAIClient,
           ResponsesCreate (user_query e ocr_text)])"
    by (simp add: json_error_result_def s)
  assume n: "\<not> py_isspace (last out)"
  have "out \<noteq> []" "\<not> py_isspace (hd out)"
    using a by (cases out; simp add: py_startswith_def fence_def py_isspace_def; fastforce)+
  then show "decoder_input out = out" using s n py_strip_id by auto
qed

theorem decode_failure_result_witness:
  "structure_ocr_to_json (stub_env (fence @ ''json'')) (PyStr ''INVOICE 42'') PyNone False =
     (Return (PyDict
        [(''error'', PyStr ''JSON parsing failed''),
         (''error_details'', PyStr ''Expecting value: line 1 column 1 (char 0)''),
         (''raw_response'', PyStr (fence @ ''json'')),
         (''metadata'',
            PyDict [(''source_file'', PyStr ''unknown''),
                    (''processing_timestamp'', PyStr ''2025-03-01T09:30:00.000000''),
                    (''agent_model'', PyStr ''gpt-4o-mini'')])]),
      [NewClient, CreateVersion ''gpt-4o-mini'', GetOpenAIClient,
       ResponsesCreate (query_prefix @ ''INVOICE 42'' @ query_suffix)])"
proof -
  let ?e = "stub_env (fence @ ''json'')"
  have c: "False \<or> new_client ?e = None" "create_version ?e = None"
    "get_openai_client ?e = None"
    "responses_create ?e (user_query ?e (PyStr ''INVOICE 42'')) = Inr (fence @ ''json'')"
    by (simp_all add: stub_env_def)
  have f: "py_startswith (fence @ ''json'') fence
      \<and> (CHR ''{'' \<notin> set (fence @ ''json'') \<or> CHR ''}'' \<notin> set (fence @ ''json''))"
    by (simp add: py_startswith_def fence_def)
  have p: "py_strip (fence @ ''json'') = fence @ ''json''"
    by (simp add: py_strip_def py_lstrip_def py_rstrip_def py_isspace_def fence_def)
  note r = decode_failure_result [OF c, of PyNone, THEN conjunct2, THEN conjunct2, THEN mp, OF f]
  show ?thesis
    using r [THEN conjunct2, THEN conjunct2, THEN conjunct2]
    by (simp add: p stub_env_def py_or_def user_query_def py_str_def expecting_value_def)
qed

section \<open>process_ocr_result: the prior-stage gate\<close>

text \<open>
  C5. For every payload whose \<open>status\<close> is not \<open>success\<close> (or is absent),
  \<open>process_ocr_result\<close> returns the error result \<open>OCR processing failed\<close> whose
  \<open>ocr_error\<close> is the payload's own \<open>error\<close> (\<open>Unknown error\<close> when the payload
  has none), and no call is made on any collaborator.
\<close>

theorem prior_stage_failure_short_circuits:
  "json_loads e s = Inr (PyDict d) \<Longrightarrow> map_of d ''status'' \<noteq> Some (PyStr ''success'') \<Longrightarrow>
   process_ocr_result e s =
     (Return (PyDict
        [(''error'', PyStr ''OCR processing failed''),
         (''ocr_error'', (case map_of d ''error'' of Some m \<Rightarrow> m | None \<Rightarrow> PyStr ''Unknown error'')),
         (''metadata'',
            PyDict [(''source_file'',
                       (case map_of d ''file_path'' of Some f \<Rightarrow> f | None \<Rightarrow> PyStr ''unknown'')),
                    (''processing_timestamp'', PyStr (now_isoformat e))])]),
      [])"
  by (auto simp add: process_ocr_result_def attr_get_def dict_get_def ocr_failed_result_def
      split: option.splits)

theorem prior_stage_failure_short_circuits_witness:
  \<open>process_ocr_result (stub_env []) ''{"status": "error", "error": "scan failed"}'' =
     (Return (PyDict
        [(''error'', PyStr ''OCR processing failed''),
         (''ocr_error'', PyStr ''scan failed''),
         (''metadata'',
            PyDict [(''source_file'', PyStr ''unknown''),
                    (''processing_timestamp'', PyStr ''2025-03-01T09:30:00.000000'')])]),
      [])\<close>
proof -
  have l: \<open>json_loads (stub_env []) ''{"status": "error", "error": "scan failed"}'' =
      Inr (PyDict [(''status'', PyStr ''error''), (''error'', PyStr ''scan failed'')])\<close>
    by (simp add: stub_env_def stub_decode_def json_loads_def json_may_begin_def)
  have n: "map_of [(''status'', PyStr ''error''), (''error'', PyStr ''scan failed'')] ''status''
      \<noteq> Some (PyStr ''success'')"
    by simp
  show ?thesis
    using prior_stage_failure_short_circuits [OF l n] by (simp add: stub_env_def)
qed

text \<open>
  C6. For every payload with the status \<open>success\<close> and the empty text,
  \<open>process_ocr_result\<close> returns the error result \<open>No text extracted from OCR\<close> and
  no call is made on any collaborator.
\<close>

theorem empty_text_short_circuits:
  "json_loads e s = Inr (PyDict d) \<Longrightarrow> map_of d ''status'' = Some (PyStr ''success'') \<Longrightarrow>
   map_of d ''text'' = Some (PyStr []) \<Longrightarrow>
   process_ocr_result e s =
     (Return (PyDict
        [(''error'', PyStr ''No text extracted from OCR''),
         (''metadata'',
            PyDict [(''source_file'',
                       py_or (case map_of d ''file_path'' of Some f \<Rightarrow> f | None \<Rightarrow> PyNone)
                         (PyStr ''unknown'')),
                    (''processing_timestamp'', PyStr (now_isoformat e))])]),
      [])"
  by (auto simp add: process_ocr_result_def attr_get_def dict_get_def no_text_result_def
      split: option.splits)

theorem empty_text_short_circuits_witness:
  \<open>process_ocr_result (stub_env []) ''{"status": "success", "text": ""}'' =
     (Return (PyDict
        [(''error'', PyStr ''No text extracted from OCR''),
         (''metadata'',
            PyDict [(''source_file'', PyStr ''unknown''),
                    (''processing_timestamp'', PyStr ''2025-03-01T09:30:00.000000'')])]),
      [])\<close>
proof -
  have l: \<open>json_loads (stub_env []) ''{"status": "success", "text": ""}'' =
      Inr (PyDict [(''status'', PyStr ''success''), (''text'', PyStr [])])\<close>
    by (simp add: stub_env_def stub_decode_def json_loads_def json_may_begin_def)
  have a: "map_of [(''status'', PyStr ''success''), (''text'', PyStr [])] ''status''
      = Some (PyStr ''success'')"
    by simp
  have b: "map_of [(''status'', PyStr ''success''), (''text'', PyStr [])] ''text'' = Some (PyStr [])"
    by simp
  show ?thesis
    using empty_text_short_circuits [OF l a b] by (simp add: stub_env_def py_or_def)
qed

text \<open>
  C9. For every payload with the status \<open>success\<close> whose \<open>text\<close> is absent or
  falsy, \<open>process_ocr_result\<close> returns the same error result and makes no call; the
  result is the one it returns for the same payload with \<open>text\<close> set to the empty
  string.
\<close>

theorem falsy_text_short_circuits:
  assumes "json_loads e s = Inr (PyDict d)"
    and "map_of d ''status'' = Some (PyStr ''success'')"
    and "map_of d ''text'' = None \<or> (\<exists>v. map_of d ''text'' = Some v \<and> \<not> truthy v)"
  shows "process_ocr_result e s =
     (Return (PyDict
        [(''error'', PyStr ''No text extracted from OCR''),
         (''metadata'',
            PyDict [(''source_file'',
                       py_or (case map_of d ''file_path'' of Some f \<Rightarrow> f | None \<Rightarrow> PyNone)
                         (PyStr ''unknown'')),
                    (''processing_timestamp'', PyStr (now_isoformat e))])]),
      [])
   \<and> process_ocr_result e s =
       process_ocr_result
         (e\<lparr>json_decode := \<lambda>_. Inr (PyDict (AList.update ''text'' (PyStr []) d))\<rparr>) s"
proof -
  let ?e' = "e\<lparr>json_decode := \<lambda>_. Inr (PyDict (AList.update ''text'' (PyStr []) d))\<rparr>"
  have b: "s \<noteq> [] \<and> json_may_begin (hd s)"
    using assms(1) by (auto simp add: json_loads_def split: if_splits)
  then have l': "json_loads ?e' s = Inr (PyDict (AList.update ''text'' (PyStr []) d))"
    by (simp add: json_loads_def)
  show ?thesis
    using assms(2,3)
    unfolding process_ocr_result_def assms(1) l'
    by (auto simp add: attr_get_def dict_get_def no_text_result_def update_conv
        split: option.splits)
qed

theorem falsy_text_short_circuits_witness:
  \<open>process_ocr_result (stub_env []) ''{"status": "success", "text": null}'' =
     (Return (PyDict
        [(''error'', PyStr ''No text extracted from OCR''),
         (''metadata'',
            PyDict [(''source_file'', PyStr ''unknown''),
                    (''processing_timestamp'', PyStr ''2025-03-01T09:30:00.000000'')])]),
      [])\<close>
proof -
  have l: \<open>json_loads (stub_env []) ''{"status": "success", "text": null}'' =
      Inr (PyDict [(''status'', PyStr ''success''), (''text'', PyNone)])\<close>
    by (simp add: stub_env_def stub_decode_def json_loads_def json_may_begin_def)
  have a: "map_of [(''status'', PyStr ''success''), (''text'', PyNone)] ''status''
      = Some (PyStr ''success'')"
    by simp
  have b: "map_of [(''status'', PyStr ''success''), (''text'', PyNone)] ''text'' = None
      \<or> (\<exists>v. map_of [(''status'', PyStr ''success''), (''text'', PyNone)] ''text'' = Some v
             \<and> \<not> truthy v)"
    by simp
  show ?thesis
    using falsy_text_short_circuits [OF l a b, THEN conjunct1]
    by (simp add: stub_env_def py_or_def)
qed

section \<open>What leaves the entry points\<close>

text \<open>
  C2 fails on the code. \<open>process_ocr_result\<close> catches \<open>JSONDecodeError\<close> only: when
  the input is valid JSON that is not an object, the lookup of \<open>get\<close> on line 225
  raises \<open>AttributeError\<close>, which leaves the function, before any call on a
  collaborator. (\<open>structure_ocr_to_json\<close> does return on every path, see
  \<open>structure_returns\<close>.)
\<close>

theorem process_ocr_result_raises_on_non_dict:
  "json_loads e s = Inr v \<Longrightarrow> (\<forall>d. v \<noteq> PyDict d) \<Longrightarrow>
   process_ocr_result e s =
     (Raise (AttributeError (quoted (type_name v) @ '' object has no attribute '' @ quoted ''get'')),
      [])"
  by (cases v) (simp_all add: process_ocr_result_def attr_get_def)

theorem process_ocr_result_raises_on_non_dict_witness:
  "process_ocr_result (stub_env []) ''[]'' =
     (Raise (AttributeError (quoted ''list'' @ '' object has no attribute '' @ quoted ''get'')), [])"
proof -
  have "json_loads (stub_env []) ''[]'' = Inr (PyList [])"
    by (simp add: stub_env_def stub_decode_def json_loads_def json_may_begin_def)
  then show ?thesis
    using process_ocr_result_raises_on_non_dict [of "stub_env []" "''[]''" "PyList []"] by simp
qed

text \<open>
  C10. \<open>structure_ocr_to_json\<close> returns on every path, and every mapping that it or
  \<open>process_ocr_result\<close> returns has a \<open>metadata\<close> that is a mapping with the key
  \<open>processing_timestamp\<close>.
\<close>

theorem every_result_has_timestamp:
  "(\<exists>r evs. structure_ocr_to_json e t sf cg = (Return r, evs) \<and> has_timestamp r)
   \<and> (\<forall>r evs. process_ocr_result e s = (Return r, evs) \<longrightarrow> has_timestamp r)"
proof (intro conjI allI impI)
  show "\<exists>r evs. structure_ocr_to_json e t sf cg = (Return r, evs) \<and> has_timestamp r"
    using structure_returns structure_timestamp by metis
next
  fix r evs
  assume a: "process_ocr_result e s = (Return r, evs)"
  show "has_timestamp r"
  proof (cases "json_loads e s")
    case (Inl x)
    then show ?thesis using a
      by (cases x)
         (auto simp add: process_ocr_result_def invalid_json_result_def has_timestamp_def)
  next
    case (Inr v)
    show ?thesis
    proof (cases "attr_get v")
      case (Inl x)
      then show ?thesis using a Inr by (simp add: process_ocr_result_def)
    next
      case (Inr d)
      then show ?thesis using a \<open>json_loads e s = Inr v\<close> structure_timestamp
        by (auto simp add: process_ocr_result_def Let_def ocr_failed_result_def
            no_text_result_def has_timestamp_def split: if_splits)
    qed
  qed
qed

theorem every_result_has_timestamp_witness:
  \<open>process_ocr_result (stub_env ''{"document_type": "invoice", "metadata": "mine"}'')
      ''{"status": "success", "text": "INVOICE 42"}'' =
     (Return (PyDict
        [(''document_type'', PyStr ''invoice''),
         (''metadata'',
            PyDict [(''source_file'', PyStr ''unknown''),
                    (''processing_timestamp'', PyStr ''2025-03-01T09:30:00.000000''),
                    (''agent_model'', PyStr ''gpt-4o-mini''),
                    (''original_text_length'', PyInt 10)])]),
      [NewClient, CreateVersion ''gpt-4o-mini'', GetOpenAIClient,
       ResponsesCreate (query_prefix @ ''INVOICE 42'' @ query_suffix)])
   \<and> has_timestamp (PyDict
        [(''document_type'', PyStr ''invoice''),
         (''metadata'',
            PyDict [(''source_file'', PyStr ''unknown''),
                    (''processing_timestamp'', PyStr ''2025-03-01T09:30:00.000000''),
                    (''agent_model'', PyStr ''gpt-4o-mini''),
                    (''original_text_length'', PyInt 10)])])\<close>
proof -
  let ?e = \<open>stub_env ''{"document_type": "invoice", "metadata": "mine"}''\<close>
  have l: \<open>json_loads ?e ''{"status": "success", "text": "INVOICE 42"}'' =
      Inr (PyDict [(''status'', PyStr ''success''), (''text'', PyStr ''INVOICE 42'')])\<close>
    by (simp add: stub_env_def stub_decode_def json_loads_def json_may_begin_def)
  have s: \<open>structure_ocr_to_json ?e (PyStr ''INVOICE 42'') PyNone False =
     (Return (PyDict
        [(''document_type'', PyStr ''invoice''),
         (''metadata'',
            PyDict [(''source_file'', PyStr ''unknown''),
                    (''processing_timestamp'', PyStr ''2025-03-01T09:30:00.000000''),
                    (''agent_model'', PyStr ''gpt-4o-mini''),
                    (''original_text_length'', PyInt 10)])]),
      [NewClient, CreateVersion ''gpt-4o-mini'', GetOpenAIClient,
       ResponsesCreate (query_prefix @ ''INVOICE 42'' @ query_suffix)])\<close>
    unfolding structure_ocr_to_json_def stub_try_body by (simp add: py_or_def)
  have run: \<open>process_ocr_result ?e ''{"status": "success", "text": "INVOICE 42"}'' =
     (Return (PyDict
        [(''document_type'', PyStr ''invoice''),
         (''metadata'',
            PyDict [(''source_file'', PyStr ''unknown''),
                    (''processing_timestamp'', PyStr ''2025-03-01T09:30:00.000000''),
                    (''agent_model'', PyStr ''gpt-4o-mini''),
                    (''original_text_length'', PyInt 10)])]),
      [NewClient, CreateVersion ''gpt-4o-mini'', GetOpenAIClient,
       ResponsesCreate (query_prefix @ ''INVOICE 42'' @ query_suffix)])\<close>
    unfolding process_ocr_result_def l
    by (simp add: attr_get_def dict_get_def s)
  show ?thesis
    using run every_result_has_timestamp [THEN conjunct2, rule_format, OF run] by simp
qed

section \<open>The name of the output file\<close>

text \<open>
  C7 fails on the code. Line 383 cuts the input path at its last dot, wherever that dot
  stands: when the file name has no dot and a directory before it has one (\<open>..\<close> is
  enough), the cut falls inside the directory part and the output is not a sibling of the
  input. When the last dot is in the file name (or the path has no dot at all) the
  extension after it is replaced by \<open>_structured.json\<close>.
\<close>

theorem output_file_cuts_at_last_dot:
  "(CHR ''.'' \<notin> set rest \<longrightarrow>
      output_file (stem @ CHR ''.'' # rest) = stem @ ''_structured.json'')
   \<and> (CHR ''.'' \<notin> set p \<longrightarrow> output_file p = p @ ''_structured.json'')"
  by (simp add: output_file_def py_rsplit1_head_def py_rfind_last Let_def)
     (simp add: py_rfind_def)

theorem output_file_cuts_at_last_dot_witness:
  "output_file ''../ocr_results/scan'' = ''._structured.json''
   \<and> output_file ''ocr_results/scan.json'' = ''ocr_results/scan_structured.json''
   \<and> output_file ''scan'' = ''scan_structured.json''"
proof -
  have a: "CHR ''.'' \<notin> set ''/ocr_results/scan''" "CHR ''.'' \<notin> set ''json''"
    "CHR ''.'' \<notin> set ''scan''"
    by simp_all
  show ?thesis
    using output_file_cuts_at_last_dot [of "''/ocr_results/scan''" "''.''" "''scan''"]
      output_file_cuts_at_last_dot [of "''json''" "''ocr_results/scan''" "''scan''"] a
    by simp
qed

end
